theory Spec2Isabelle
  imports Complex_Main "HOL-Library.AList"
begin

section \<open>Values of the transcript: parsed JSON\<close>

text \<open>
  What \<^verbatim>\<open>json.loads\<close> returns: \<^verbatim>\<open>None\<close>, a bool, an int, a float, a str, a list or a
  dict. A dict keeps its keys in insertion order, so it is an association list (a parsed
  dict has no key twice; \<open>map_of\<close> reads it). A \<open>char\<close> stands for one code point of a
  Python str, so \<open>length\<close> is Python's \<^verbatim>\<open>len\<close> and \<open>take n\<close> is \<^verbatim>\<open>s[:n]\<close>.
  A float is kept as the number it denotes: the program only tests it for truth.
\<close>

datatype json =
    JNull
  | JBool bool
  | JInt int
  | JFloat real
  | JStr string
  | JArr "json list"
  | JObj "(string \<times> json) list"

type_synonym dict = "(string \<times> json) list"

text \<open>
  The exceptions the program can meet. \<open>SubscriptError\<close> is what slicing a dict raises
  (\<^verbatim>\<open>TypeError\<close> before Python 3.12, \<^verbatim>\<open>KeyError\<close> from 3.12 on). Only
  \<open>JSONDecodeError\<close> is ever caught.
\<close>

datatype py_error =
    JSONDecodeError
  | AttributeError
  | TypeError
  | KeyError
  | SubscriptError
  | ValueError
  | RecursionError
  | ZeroDivisionError

section \<open>The Python operations the program uses\<close>

definition dict_get :: "dict \<Rightarrow> string \<Rightarrow> json \<Rightarrow> json" where
  \<comment> \<open>\<^verbatim>\<open>d.get(k, dflt)\<close> on a dict\<close>
  "dict_get d k dflt = (case map_of d k of Some v \<Rightarrow> v | None \<Rightarrow> dflt)"

definition attr_get :: "json \<Rightarrow> string \<Rightarrow> json \<Rightarrow> py_error + json" where
  \<comment> \<open>\<^verbatim>\<open>x.get(k, dflt)\<close> on any value: only a dict has the method\<close>
  "attr_get x k dflt = (case x of JObj d \<Rightarrow> Inr (dict_get d k dflt) | _ \<Rightarrow> Inl AttributeError)"

definition truthy :: "json \<Rightarrow> bool" where
  "truthy v = (case v of
       JNull \<Rightarrow> False
     | JBool b \<Rightarrow> b
     | JInt i \<Rightarrow> i \<noteq> 0
     | JFloat x \<Rightarrow> x \<noteq> 0
     | JStr s \<Rightarrow> s \<noteq> []
     | JArr xs \<Rightarrow> xs \<noteq> []
     | JObj d \<Rightarrow> d \<noteq> [])"

definition py_slice :: "nat \<Rightarrow> json \<Rightarrow> py_error + json" where
  \<comment> \<open>\<^verbatim>\<open>v[:n]\<close>\<close>
  "py_slice n v = (case v of
       JStr s \<Rightarrow> Inr (JStr (take n s))
     | JArr xs \<Rightarrow> Inr (JArr (take n xs))
     | JObj d \<Rightarrow> Inl SubscriptError
     | _ \<Rightarrow> Inl TypeError)"

definition py_len :: "json \<Rightarrow> py_error + nat" where
  "py_len v = (case v of
       JStr s \<Rightarrow> Inr (length s)
     | JArr xs \<Rightarrow> Inr (length xs)
     | JObj d \<Rightarrow> Inr (length d)
     | _ \<Rightarrow> Inl TypeError)"

definition py_add_str :: "json \<Rightarrow> string \<Rightarrow> py_error + json" where
  \<comment> \<open>\<^verbatim>\<open>v + "..."\<close>: only a str can be added to a str\<close>
  "py_add_str v t = (case v of JStr s \<Rightarrow> Inr (JStr (s @ t)) | _ \<Rightarrow> Inl TypeError)"

definition py_iter :: "json \<Rightarrow> py_error + json list" where
  \<comment> \<open>\<^verbatim>\<open>for item in v\<close>: the elements of a list, the characters of a str, the keys of a dict\<close>
  "py_iter v = (case v of
       JArr xs \<Rightarrow> Inr xs
     | JStr s \<Rightarrow> Inr (map (\<lambda>c. JStr [c]) s)
     | JObj d \<Rightarrow> Inr (map (\<lambda>kv. JStr (fst kv)) d)
     | _ \<Rightarrow> Inl TypeError)"

definition py_str :: "(json \<Rightarrow> string) \<Rightarrow> json \<Rightarrow> string" where
  \<comment> \<open>\<^verbatim>\<open>str(v)\<close>: a str is itself; \<open>repr\<close> is the text Python prints for any other value\<close>
  "py_str repr v = (case v of JStr s \<Rightarrow> s | _ \<Rightarrow> repr v)"

definition isspace :: "char \<Rightarrow> bool" where
  \<comment> \<open>\<^verbatim>\<open>str.isspace\<close> on one code point below 256\<close>
  "isspace c = ((of_char c :: nat) \<in> set [9, 10, 11, 12, 13, 28, 29, 30, 31, 32, 133, 160])"

definition py_strip :: "string \<Rightarrow> string" where
  "py_strip s = rev (dropWhile isspace (rev (dropWhile isspace s)))"

definition attr_strip :: "json \<Rightarrow> py_error + string" where
  \<comment> \<open>\<^verbatim>\<open>v.strip()\<close> on any value: only a str has the method\<close>
  "attr_strip v = (case v of JStr s \<Rightarrow> Inr (py_strip s) | _ \<Rightarrow> Inl AttributeError)"

fun py_join :: "json list \<Rightarrow> py_error + string" where
  \<comment> \<open>\<^verbatim>\<open>"".join(parts)\<close>: every part must be a str\<close>
  "py_join [] = Inr []"
| "py_join (p # ps) =
     (case p of
        JStr s \<Rightarrow> (case py_join ps of Inl e \<Rightarrow> Inl e | Inr t \<Rightarrow> Inr (s @ t))
      | _ \<Rightarrow> Inl TypeError)"

fun is_substr :: "string \<Rightarrow> string \<Rightarrow> bool" where
  \<comment> \<open>\<^verbatim>\<open>k in s\<close> for two strs\<close>
  "is_substr k [] = (k = [])"
| "is_substr k (c # cs) = (take (length k) (c # cs) = k \<or> is_substr k cs)"

definition py_contains :: "json \<Rightarrow> string \<Rightarrow> py_error + bool" where
  \<comment> \<open>\<^verbatim>\<open>key in v\<close> for a str key\<close>
  "py_contains v key = (case v of
       JObj d \<Rightarrow> Inr (map_of d key \<noteq> None)
     | JArr xs \<Rightarrow> Inr (JStr key \<in> set xs)
     | JStr s \<Rightarrow> Inr (is_substr key s)
     | _ \<Rightarrow> Inl TypeError)"

definition py_index :: "json \<Rightarrow> string \<Rightarrow> py_error + json" where
  \<comment> \<open>\<^verbatim>\<open>v[key]\<close> for a str key\<close>
  "py_index v key = (case v of
       JObj d \<Rightarrow> (case map_of d key of Some x \<Rightarrow> Inr x | None \<Rightarrow> Inl KeyError)
     | _ \<Rightarrow> Inl TypeError)"

definition dict_items :: "json \<Rightarrow> py_error + dict" where
  \<comment> \<open>\<^verbatim>\<open>list(v.items())\<close>\<close>
  "dict_items v = (case v of JObj d \<Rightarrow> Inr d | _ \<Rightarrow> Inl AttributeError)"

definition dict_of_pairs :: "dict \<Rightarrow> dict \<Rightarrow> dict" where
  \<comment> \<open>storing the pairs one after the other into \<open>d\<close>, as a dict display or comprehension does\<close>
  "dict_of_pairs d kvs = foldl (\<lambda>acc kv. AList.update (fst kv) (snd kv) acc) d kvs"

definition startswith :: "json \<Rightarrow> string \<Rightarrow> py_error + bool" where
  \<comment> \<open>\<^verbatim>\<open>v.startswith(p)\<close>: only a str has the method\<close>
  "startswith v p = (case v of JStr s \<Rightarrow> Inr (take (length p) s = p) | _ \<Rightarrow> Inl AttributeError)"

fun map_err :: "('a \<Rightarrow> py_error + 'b) \<Rightarrow> 'a list \<Rightarrow> py_error + 'b list" where
  \<comment> \<open>a list comprehension whose element expression may raise\<close>
  "map_err f [] = Inr []"
| "map_err f (x # xs) =
     (case f x of
        Inl e \<Rightarrow> Inl e
      | Inr y \<Rightarrow> (case map_err f xs of Inl e \<Rightarrow> Inl e | Inr ys \<Rightarrow> Inr (y # ys)))"

section \<open>Tool Use Simplifier\<close>

definition bash_cmd :: "json \<Rightarrow> py_error + json" where
  \<comment> \<open>\<^verbatim>\<open>cmd[:200] + "..." if len(cmd) > 200 else cmd\<close>\<close>
  "bash_cmd cmd =
     (case py_len cmd of
        Inl e \<Rightarrow> Inl e
      | Inr n \<Rightarrow>
          if n > 200
          then (case py_slice 200 cmd of Inl e \<Rightarrow> Inl e | Inr h \<Rightarrow> py_add_str h ''...'')
          else Inr cmd)"

definition todo_item :: "json \<Rightarrow> py_error + json" where
  \<comment> \<open>\<^verbatim>\<open>t.get("content", "")[:50]\<close>\<close>
  "todo_item t =
     (case attr_get t ''content'' (JStr '''') of Inl e \<Rightarrow> Inl e | Inr c \<Rightarrow> py_slice 50 c)"

definition todo_items :: "json \<Rightarrow> py_error + json" where
  \<comment> \<open>\<^verbatim>\<open>[t.get("content", "")[:50] for t in todos[:5]]\<close>\<close>
  "todo_items todos =
     (case py_slice 5 todos of
        Inl e \<Rightarrow> Inl e
      | Inr first5 \<Rightarrow>
          (case py_iter first5 of
             Inl e \<Rightarrow> Inl e
           | Inr ts \<Rightarrow> (case map_err todo_item ts of Inl e \<Rightarrow> Inl e | Inr xs \<Rightarrow> Inr (JArr xs))))"

definition mcp_params :: "(json \<Rightarrow> string) \<Rightarrow> json \<Rightarrow> py_error + json" where
  \<comment> \<open>\<^verbatim>\<open>{k: str(v)[:100] for k, v in list(inp.items())[:3]}\<close>\<close>
  "mcp_params repr inp =
     (case dict_items inp of
        Inl e \<Rightarrow> Inl e
      | Inr kvs \<Rightarrow>
          Inr (JObj (dict_of_pairs []
                 (map (\<lambda>kv. (fst kv, JStr (take 100 (py_str repr (snd kv))))) (take 3 kvs)))))"

definition probe_keys :: "string list" where
  "probe_keys = [''file_path'', ''path'', ''query'', ''url'', ''id'']"

fun fallback_probe :: "(json \<Rightarrow> string) \<Rightarrow> json \<Rightarrow> string list \<Rightarrow> dict \<Rightarrow> py_error + dict" where
  \<comment> \<open>the \<^verbatim>\<open>for key in [...]\<close> loop of the generic fallback, with its \<^verbatim>\<open>break\<close>\<close>
  "fallback_probe repr inp [] result = Inr result"
| "fallback_probe repr inp (key # keys) result =
     (case py_contains inp key of
        Inl e \<Rightarrow> Inl e
      | Inr found \<Rightarrow>
          if found
          then (case py_index inp key of
                  Inl e \<Rightarrow> Inl e
                | Inr v \<Rightarrow> Inr (AList.update key (JStr (take 200 (py_str repr v))) result))
          else fallback_probe repr inp keys result)"

definition set_from_input :: "string \<Rightarrow> json \<Rightarrow> string \<Rightarrow> dict \<Rightarrow> py_error + dict" where
  \<comment> \<open>\<^verbatim>\<open>result[field] = inp.get(key, "")\<close>\<close>
  "set_from_input field inp key result =
     (case attr_get inp key (JStr '''') of
        Inl e \<Rightarrow> Inl e
      | Inr v \<Rightarrow> Inr (AList.update field v result))"

definition grep_fields :: "json \<Rightarrow> dict \<Rightarrow> py_error + dict" where
  \<comment> \<open>the \<^verbatim>\<open>Grep\<close> branch: the pattern cut at 100, the path only when it is truthy\<close>
  "grep_fields inp result =
     (case attr_get inp ''pattern'' (JStr '''') of
        Inl e \<Rightarrow> Inl e
      | Inr p \<Rightarrow>
          (case py_slice 100 p of
             Inl e \<Rightarrow> Inl e
           | Inr p100 \<Rightarrow>
               (let result1 = AList.update ''pattern'' p100 result in
                case attr_get inp ''path'' JNull of
                  Inl e \<Rightarrow> Inl e
                | Inr path \<Rightarrow>
                    if truthy path then Inr (AList.update ''path'' path result1)
                    else Inr result1)))"

definition simplify_tool_use :: "(json \<Rightarrow> string) \<Rightarrow> dict \<Rightarrow> py_error + dict" where
  "simplify_tool_use repr tool_use =
     (let name = dict_get tool_use ''name'' (JStr ''unknown'');
          inp = dict_get tool_use ''input'' (JObj []);
          tool_id = dict_get tool_use ''id'' (JStr '''');
          result = [(''tool'', name), (''id'', tool_id)]
      in
        if name = JStr ''Read'' then set_from_input ''target'' inp ''file_path'' result
        else if name = JStr ''Edit'' then set_from_input ''target'' inp ''file_path'' result
        else if name = JStr ''Write'' then set_from_input ''target'' inp ''file_path'' result
        else if name = JStr ''Bash'' then
          (case attr_get inp ''command'' (JStr '''') of
             Inl e \<Rightarrow> Inl e
           | Inr cmd \<Rightarrow>
               (case bash_cmd cmd of
                  Inl e \<Rightarrow> Inl e
                | Inr c \<Rightarrow> Inr (AList.update ''cmd'' c result)))
        else if name = JStr ''Grep'' then grep_fields inp result
        else if name = JStr ''Glob'' then set_from_input ''pattern'' inp ''pattern'' result
        else if name = JStr ''Task'' then
          (case set_from_input ''desc'' inp ''description'' result of
             Inl e \<Rightarrow> Inl e
           | Inr result1 \<Rightarrow> set_from_input ''agent'' inp ''subagent_type'' result1)
        else if name = JStr ''TodoWrite'' then
          (case attr_get inp ''todos'' (JArr []) of
             Inl e \<Rightarrow> Inl e
           | Inr todos \<Rightarrow>
               (case todo_items todos of
                  Inl e \<Rightarrow> Inl e
                | Inr ts \<Rightarrow> Inr (AList.update ''todos'' ts result)))
        else
          (case startswith name ''mcp__'' of
             Inl e \<Rightarrow> Inl e
           | Inr is_mcp \<Rightarrow>
               if is_mcp
               then (case mcp_params repr inp of
                       Inl e \<Rightarrow> Inl e
                     | Inr ps \<Rightarrow> Inr (AList.update ''params'' ps result))
               else fallback_probe repr inp probe_keys result))"

section \<open>Tool Result Reducer\<close>

text \<open>
  The tool-use registry is a Python dict keyed by invocation ids. A key must be hashable
  (a list or a dict is not), and numbers that are equal are one key (\<^verbatim>\<open>1 == 1.0 == True\<close>).
\<close>

datatype hkey = KNone | KNum real | KStr string

type_synonym registry = "(hkey \<times> dict) list"

definition hash_key :: "json \<Rightarrow> py_error + hkey" where
  "hash_key v = (case v of
       JNull \<Rightarrow> Inr KNone
     | JBool b \<Rightarrow> Inr (KNum (if b then 1 else 0))
     | JInt i \<Rightarrow> Inr (KNum (of_int i))
     | JFloat x \<Rightarrow> Inr (KNum x)
     | JStr s \<Rightarrow> Inr (KStr s)
     | _ \<Rightarrow> Inl TypeError)"

definition registry_set :: "json \<Rightarrow> dict \<Rightarrow> registry \<Rightarrow> py_error + registry" where
  \<comment> \<open>\<^verbatim>\<open>tool_uses[key] = simplified\<close>\<close>
  "registry_set key simplified tool_uses =
     (case hash_key key of
        Inl e \<Rightarrow> Inl e
      | Inr k \<Rightarrow> Inr (AList.update k simplified tool_uses))"

definition error_text :: "json \<Rightarrow> dict \<Rightarrow> py_error + dict" where
  \<comment> \<open>the body of \<^verbatim>\<open>if is_error:\<close>, on the payload \<open>content\<close>\<close>
  "error_text content result =
     (case content of
        JStr s \<Rightarrow> Inr (AList.update ''error'' (JStr (take 200 s)) result)
      | JArr [] \<Rightarrow> Inr result
      | JArr (first # rest) \<Rightarrow>
          (case first of
             JObj d \<Rightarrow>
               (case py_slice 200 (dict_get d ''text'' (JStr '''')) of
                  Inl e \<Rightarrow> Inl e
                | Inr t \<Rightarrow> Inr (AList.update ''error'' t result))
           | JStr s \<Rightarrow> Inr (AList.update ''error'' (JStr (take 200 s)) result)
           | _ \<Rightarrow> Inr result)
      | _ \<Rightarrow> Inr result)"

definition process_tool_result :: "dict \<Rightarrow> registry \<Rightarrow> py_error + dict" where
  "process_tool_result tool_result tool_uses =
     (let tool_id = dict_get tool_result ''tool_use_id'' (JStr '''');
          is_error = dict_get tool_result ''is_error'' (JBool False);
          result = [(''id'', tool_id), (''ok'', JBool (\<not> truthy is_error))]
      in
        if truthy is_error
        then error_text (dict_get tool_result ''content'' (JStr '''')) result
        else Inr result)"

section \<open>Assistant Content Processor\<close>

definition assistant_item ::
  "(json \<Rightarrow> string) \<Rightarrow> json \<Rightarrow> registry \<Rightarrow> py_error + (json list \<times> registry)" where
  \<comment> \<open>the body of the loop over the content: what one item appends to \<^verbatim>\<open>outputs\<close>, and
      the registry after it\<close>
  "assistant_item repr item tool_uses =
     (case item of
        JObj d \<Rightarrow>
          (let item_type = dict_get d ''type'' JNull in
           if item_type = JStr ''text'' then
             (case attr_strip (dict_get d ''text'' (JStr '''')) of
                Inl e \<Rightarrow> Inl e
              | Inr text \<Rightarrow>
                  if text \<noteq> []
                  then Inr ([JObj [(''type'', JStr ''assistant''), (''text'', JStr text)]], tool_uses)
                  else Inr ([], tool_uses))
           else if item_type = JStr ''tool_use'' then
             (case simplify_tool_use repr d of
                Inl e \<Rightarrow> Inl e
              | Inr simplified \<Rightarrow>
                  (case registry_set (dict_get d ''id'' (JStr '''')) simplified tool_uses of
                     Inl e \<Rightarrow> Inl e
                   | Inr tool_uses' \<Rightarrow>
                       Inr ([JObj (dict_of_pairs [(''type'', JStr ''tool_use'')] simplified)],
                            tool_uses')))
           else Inr ([], tool_uses))
      | _ \<Rightarrow> Inr ([], tool_uses))"

fun assistant_loop ::
  "(json \<Rightarrow> string) \<Rightarrow> json list \<Rightarrow> json list \<Rightarrow> registry \<Rightarrow> py_error + (json list \<times> registry)"
where
  "assistant_loop repr [] outputs tool_uses = Inr (outputs, tool_uses)"
| "assistant_loop repr (item # rest) outputs tool_uses =
     (case assistant_item repr item tool_uses of
        Inl e \<Rightarrow> Inl e
      | Inr (new, tool_uses') \<Rightarrow> assistant_loop repr rest (outputs @ new) tool_uses')"

definition process_assistant_message ::
  "(json \<Rightarrow> string) \<Rightarrow> json \<Rightarrow> registry \<Rightarrow> py_error + (json list \<times> registry)" where
  "process_assistant_message repr content tool_uses =
     (case py_iter content of
        Inl e \<Rightarrow> Inl e
      | Inr items \<Rightarrow> assistant_loop repr items [] tool_uses)"

section \<open>User Content Processor\<close>

definition user_text_part :: "json \<Rightarrow> json list" where
  \<comment> \<open>what one item appends to \<^verbatim>\<open>text_parts\<close>\<close>
  "user_text_part item =
     (case item of
        JStr s \<Rightarrow> [item]
      | JObj d \<Rightarrow>
          if dict_get d ''type'' JNull = JStr ''text'' then [dict_get d ''text'' (JStr '''')]
          else []
      | _ \<Rightarrow> [])"

fun collect_text :: "json list \<Rightarrow> json list \<Rightarrow> json list" where
  "collect_text [] text_parts = text_parts"
| "collect_text (item # rest) text_parts = collect_text rest (text_parts @ user_text_part item)"

definition extract_user_text :: "json \<Rightarrow> py_error + string option" where
  "extract_user_text content =
     (case py_iter content of
        Inl e \<Rightarrow> Inl e
      | Inr items \<Rightarrow>
          (case py_join (collect_text items []) of
             Inl e \<Rightarrow> Inl e
           | Inr joined \<Rightarrow>
               (let text = py_strip joined in Inr (if text \<noteq> [] then Some text else None))))"

definition user_item :: "json \<Rightarrow> registry \<Rightarrow> py_error + json list" where
  \<comment> \<open>the body of the second loop: what one item appends to \<^verbatim>\<open>outputs\<close>\<close>
  "user_item item tool_uses =
     (case item of
        JObj d \<Rightarrow>
          if dict_get d ''type'' JNull = JStr ''tool_result'' then
            (case process_tool_result d tool_uses of
               Inl e \<Rightarrow> Inl e
             | Inr result \<Rightarrow> Inr [JObj (dict_of_pairs [(''type'', JStr ''result'')] result)])
          else Inr []
      | _ \<Rightarrow> Inr [])"

fun user_loop :: "json list \<Rightarrow> json list \<Rightarrow> registry \<Rightarrow> py_error + json list" where
  "user_loop [] outputs tool_uses = Inr outputs"
| "user_loop (item # rest) outputs tool_uses =
     (case user_item item tool_uses of
        Inl e \<Rightarrow> Inl e
      | Inr new \<Rightarrow> user_loop rest (outputs @ new) tool_uses)"

definition process_user_message :: "json \<Rightarrow> registry \<Rightarrow> py_error + json list" where
  "process_user_message content tool_uses =
     (case extract_user_text content of
        Inl e \<Rightarrow> Inl e
      | Inr user_text \<Rightarrow>
          (let outputs = (case user_text of
                            Some text \<Rightarrow> [JObj [(''type'', JStr ''user''), (''text'', JStr text)]]
                          | None \<Rightarrow> [])
           in case py_iter content of
                Inl e \<Rightarrow> Inl e
              | Inr items \<Rightarrow> user_loop items outputs tool_uses))"

section \<open>Record Router, Output Serializer and Stats Accumulator\<close>

record stats =
  input_lines :: int
  input_bytes :: int
  output_lines :: int
  output_bytes :: int
  dropped_records :: int

text \<open>
  The state of one pass: the counters, the registry, and the lines written to the output
  file so far.
\<close>

record pass =
  p_stats :: stats
  p_tool_uses :: registry
  p_written :: "string list"

definition count_input :: "string \<Rightarrow> pass \<Rightarrow> pass" where
  "count_input line p =
     p\<lparr>p_stats := (p_stats p)\<lparr>input_lines := input_lines (p_stats p) + 1,
                              input_bytes := input_bytes (p_stats p) + int (length line)\<rparr>\<rparr>"

definition count_dropped :: "pass \<Rightarrow> pass" where
  "count_dropped p =
     p\<lparr>p_stats := (p_stats p)\<lparr>dropped_records := dropped_records (p_stats p) + 1\<rparr>\<rparr>"

fun write_outputs :: "(json \<Rightarrow> string) \<Rightarrow> json list \<Rightarrow> pass \<Rightarrow> pass" where
  \<comment> \<open>the \<^verbatim>\<open>for output in outputs\<close> loop; \<open>dumps\<close> is \<^verbatim>\<open>json.dumps\<close> with the compact
      separators\<close>
  "write_outputs dumps [] p = p"
| "write_outputs dumps (output # rest) p =
     (let output_line = dumps output @ [CHR 0x0A] in
      write_outputs dumps rest
        (p\<lparr>p_written := p_written p @ [output_line],
           p_stats := (p_stats p)\<lparr>output_lines := output_lines (p_stats p) + 1,
                                    output_bytes := output_bytes (p_stats p)
                                                    + int (length output_line)\<rparr>\<rparr>))"

definition message_content :: "json \<Rightarrow> py_error + json" where
  \<comment> \<open>\<^verbatim>\<open>record.get("message", {}).get("content", [])\<close>\<close>
  "message_content record =
     (case attr_get record ''message'' (JObj []) of
        Inl e \<Rightarrow> Inl e
      | Inr message \<Rightarrow> attr_get message ''content'' (JArr []))"

definition streamline_line ::
  "(string \<Rightarrow> py_error + json) \<Rightarrow> (json \<Rightarrow> string) \<Rightarrow> (json \<Rightarrow> string) \<Rightarrow> string \<Rightarrow> pass
     \<Rightarrow> py_error + pass" where
  \<comment> \<open>the body of \<^verbatim>\<open>for line in input_file\<close>; \<open>loads\<close> is \<^verbatim>\<open>json.loads\<close>\<close>
  "streamline_line loads dumps repr line p =
     (let p1 = count_input line p in
      case loads line of
        Inl e \<Rightarrow> if e = JSONDecodeError then Inr p1 else Inl e
      | Inr record \<Rightarrow>
          (case attr_get record ''type'' JNull of
             Inl e \<Rightarrow> Inl e
           | Inr record_type \<Rightarrow>
               if record_type = JStr ''file-history-snapshot''
                  \<or> record_type = JStr ''queue-operation''
               then Inr (count_dropped p1)
               else if record_type = JStr ''assistant'' then
                 (case message_content record of
                    Inl e \<Rightarrow> Inl e
                  | Inr content \<Rightarrow>
                      (case process_assistant_message repr content (p_tool_uses p1) of
                         Inl e \<Rightarrow> Inl e
                       | Inr (outputs, tool_uses') \<Rightarrow>
                           Inr (write_outputs dumps outputs (p1\<lparr>p_tool_uses := tool_uses'\<rparr>))))
               else if record_type = JStr ''user'' then
                 (case message_content record of
                    Inl e \<Rightarrow> Inl e
                  | Inr content \<Rightarrow>
                      (case process_user_message content (p_tool_uses p1) of
                         Inl e \<Rightarrow> Inl e
                       | Inr outputs \<Rightarrow> Inr (write_outputs dumps outputs p1)))
               else Inr (count_dropped p1)))"

text \<open>
  The loop over the input. An exception other than the caught one ends the pass: the
  result is then the exception with the lines already in the output file.
\<close>

fun streamline_loop ::
  "(string \<Rightarrow> py_error + json) \<Rightarrow> (json \<Rightarrow> string) \<Rightarrow> (json \<Rightarrow> string) \<Rightarrow> string list \<Rightarrow> pass
     \<Rightarrow> (py_error \<times> string list) + pass" where
  "streamline_loop loads dumps repr [] p = Inr p"
| "streamline_loop loads dumps repr (line # rest) p =
     (case streamline_line loads dumps repr line p of
        Inl e \<Rightarrow> Inl (e, p_written p)
      | Inr p' \<Rightarrow> streamline_loop loads dumps repr rest p')"

definition initial_pass :: pass where
  "initial_pass =
     \<lparr>p_stats = \<lparr>input_lines = 0, input_bytes = 0, output_lines = 0, output_bytes = 0,
                 dropped_records = 0\<rparr>,
      p_tool_uses = [], p_written = []\<rparr>"

definition streamline ::
  "(string \<Rightarrow> py_error + json) \<Rightarrow> (json \<Rightarrow> string) \<Rightarrow> (json \<Rightarrow> string) \<Rightarrow> string list
     \<Rightarrow> (py_error \<times> string list) + (stats \<times> string list)" where
  \<comment> \<open>the returned stats, with the contents of the output file\<close>
  "streamline loads dumps repr input_file =
     (case streamline_loop loads dumps repr input_file initial_pass of
        Inl ew \<Rightarrow> Inl ew
      | Inr p \<Rightarrow> Inr (p_stats p, p_written p))"


section \<open>The stats report\<close>

definition py_truediv :: "int \<Rightarrow> int \<Rightarrow> py_error + rat" where
  \<comment> \<open>\<^verbatim>\<open>a / b\<close> on ints: the quotient (Python rounds it to the nearest float)\<close>
  "py_truediv a b = (if b = 0 then Inl ZeroDivisionError else Inr (of_int a / of_int b))"

definition reduction :: "stats \<Rightarrow> py_error + rat" where
  \<comment> \<open>\<^verbatim>\<open>stats["input_bytes"] / stats["output_bytes"] if stats["output_bytes"] else 0\<close> in
      \<^verbatim>\<open>main\<close>\<close>
  "reduction st =
     (if output_bytes st \<noteq> 0 then py_truediv (input_bytes st) (output_bytes st) else Inr 0)"

section \<open>Notions of the specification\<close>

text \<open>
  The output counters agree with the output file: one line counted per line written, the
  byte counter their total length, and no written line is empty (each ends in a newline).
\<close>

definition pass_inv :: "pass \<Rightarrow> bool" where
  "pass_inv p =
     (output_lines (p_stats p) = int (length (p_written p))
      \<and> output_bytes (p_stats p) = (\<Sum>w\<leftarrow>p_written p. int (length w))
      \<and> [] \<notin> set (p_written p))"

text \<open>
  Drop accounting: the lines that parse as a JSON object whose type is neither
  \<^verbatim>\<open>assistant\<close> nor \<^verbatim>\<open>user\<close> (the two explicitly dropped types are among them).
\<close>

definition counted_as_dropped :: "(string \<Rightarrow> py_error + json) \<Rightarrow> string \<Rightarrow> bool" where
  "counted_as_dropped loads line =
     (case loads line of
        Inr (JObj record) \<Rightarrow>
          dict_get record ''type'' JNull \<noteq> JStr ''assistant''
          \<and> dict_get record ''type'' JNull \<noteq> JStr ''user''
      | _ \<Rightarrow> False)"

text \<open>
  The Tool Result Reducer in the words of the specification: the error text of a payload is
  the payload cut at 200 when it is a plain string; for a sequence, the text field of its
  first element when that is a structured block, the element itself when it is a plain
  string, each cut at 200; otherwise there is none. The record is the id, the negated
  flag, and the error text when the flag is set and there is one.
\<close>

definition spec_error_text :: "json \<Rightarrow> string option" where
  "spec_error_text payload =
     (case payload of
        JStr s \<Rightarrow> Some (take 200 s)
      | JArr (JObj block # rest) \<Rightarrow>
          (case dict_get block ''text'' (JStr '''') of JStr s \<Rightarrow> Some (take 200 s) | _ \<Rightarrow> None)
      | JArr (JStr s # rest) \<Rightarrow> Some (take 200 s)
      | _ \<Rightarrow> None)"

definition spec_result :: "dict \<Rightarrow> dict" where
  "spec_result block =
     (let flag = truthy (dict_get block ''is_error'' (JBool False)) in
      [(''id'', dict_get block ''tool_use_id'' (JStr '''')), (''ok'', JBool (\<not> flag))]
      @ (if flag
         then (case spec_error_text (dict_get block ''content'' (JStr '''')) of
                 Some e \<Rightarrow> [(''error'', JStr e)]
               | None \<Rightarrow> [])
         else []))"

text \<open>
  A tool result is well typed when, its error flag being set and its payload a sequence
  that starts with a structured block, the text of that block (when it has one) is a str.
\<close>

definition error_text_ok :: "dict \<Rightarrow> bool" where
  "error_text_ok block =
     (truthy (dict_get block ''is_error'' (JBool False)) \<longrightarrow>
        (case dict_get block ''content'' (JStr '''') of
           JArr (JObj first # rest) \<Rightarrow>
             (case dict_get first ''text'' (JStr '''') of JStr s \<Rightarrow> True | _ \<Rightarrow> False)
         | _ \<Rightarrow> True))"

text \<open>
  The Text Collapser in the words of the specification: the blocks that are a bare string
  or a \<^verbatim>\<open>text\<close>-typed block, their texts concatenated in block order, trimmed.
\<close>

definition is_text_block :: "json \<Rightarrow> bool" where
  "is_text_block item =
     (case item of
        JStr s \<Rightarrow> True
      | JObj d \<Rightarrow> dict_get d ''type'' JNull = JStr ''text''
      | _ \<Rightarrow> False)"

definition block_text :: "json \<Rightarrow> string" where
  "block_text item =
     (case item of
        JStr s \<Rightarrow> s
      | JObj d \<Rightarrow> (case dict_get d ''text'' (JStr '''') of JStr s \<Rightarrow> s | _ \<Rightarrow> [])
      | _ \<Rightarrow> [])"

definition collapsed_text :: "json list \<Rightarrow> string" where
  "collapsed_text items = py_strip (concat (map block_text (filter is_text_block items)))"

definition text_is_str :: "json \<Rightarrow> bool" where
  \<comment> \<open>the text of a \<^verbatim>\<open>text\<close>-typed block, when it has one, is a str\<close>
  "text_is_str item =
     (case item of
        JObj d \<Rightarrow>
          dict_get d ''type'' JNull = JStr ''text'' \<longrightarrow>
            (case dict_get d ''text'' (JStr '''') of JStr s \<Rightarrow> True | _ \<Rightarrow> False)
      | _ \<Rightarrow> True)"

definition is_tool_result :: "json \<Rightarrow> bool" where
  "is_tool_result item =
     (case item of JObj d \<Rightarrow> dict_get d ''type'' JNull = JStr ''tool_result'' | _ \<Rightarrow> False)"

definition result_ok :: "json \<Rightarrow> bool" where
  "result_ok item = (case item of JObj d \<Rightarrow> is_tool_result item \<longrightarrow> error_text_ok d | _ \<Rightarrow> True)"

definition result_record :: "json \<Rightarrow> json" where
  \<comment> \<open>the \<^verbatim>\<open>result\<close> output record of a tool result block\<close>
  "result_record item =
     (case item of JObj d \<Rightarrow> JObj ((''type'', JStr ''result'') # spec_result d) | _ \<Rightarrow> JNull)"








text \<open>Two states of a pass that differ at most in the registry.\<close>

definition same_visible :: "pass \<Rightarrow> pass \<Rightarrow> bool" where
  "same_visible p q = (p_stats p = p_stats q \<and> p_written p = p_written q)"

section \<open>A small transcript\<close>

text \<open>
  Five input lines, named by what they hold, with the parser, serializer and printer fixed
  on them: a dropped record, a line that is not JSON, an assistant record with a text
  block and a \<^verbatim>\<open>Bash\<close> call, a user record whose text comes character by character
  around a failed tool result, and a record of an unknown type.
\<close>

definition example_tool_use :: dict where
  "example_tool_use =
     [(''type'', JStr ''tool_use''), (''id'', JStr ''t1''), (''name'', JStr ''Bash''),
      (''input'', JObj [(''command'', JStr ''ls'')])]"

definition example_tool_result :: dict where
  "example_tool_result =
     [(''type'', JStr ''tool_result''), (''tool_use_id'', JStr ''t1''),
      (''is_error'', JBool True), (''content'', JStr ''boom'')]"

definition example_loads :: "string \<Rightarrow> py_error + json" where
  "example_loads line =
     (if line = ''snapshot'' then Inr (JObj [(''type'', JStr ''file-history-snapshot'')])
      else if line = ''assistant'' then
        Inr (JObj [(''type'', JStr ''assistant''),
                   (''message'', JObj [(''content'',
                      JArr [JObj [(''type'', JStr ''text''), (''text'', JStr ''  Hello  '')],
                            JObj example_tool_use])])])
      else if line = ''user'' then
        Inr (JObj [(''type'', JStr ''user''),
                   (''message'', JObj [(''content'',
                      JArr [JStr ''h'', JObj example_tool_result, JStr ''i''])])])
      else if line = ''summary'' then Inr (JObj [(''type'', JStr ''summary'')])
      else Inl JSONDecodeError)"

fun example_dumps :: "json \<Rightarrow> string" where
  "example_dumps (JObj ((k, JStr t) # kvs)) = t"
| "example_dumps v = ''?''"

definition example_repr :: "json \<Rightarrow> string" where
  "example_repr v = (case v of JInt i \<Rightarrow> (if i = 7 then ''7'' else ''?'') | _ \<Rightarrow> ''?'')"

definition example_input :: "string list" where
  "example_input = [''snapshot'', ''{nope'', ''assistant'', ''user'', ''summary'']"

text \<open>A \<^verbatim>\<open>Bash\<close> call whose command is 250 times the letter a.\<close>

definition example_long_bash :: dict where
  "example_long_bash =
     [(''type'', JStr ''tool_use''), (''id'', JStr ''t1''), (''name'', JStr ''Bash''),
      (''input'', JObj [(''command'', JStr (replicate 250 (CHR ''a'')))])]"

text \<open>User content with text before, between and after a tool result.\<close>

definition example_user_items :: "json list" where
  "example_user_items =
     [JStr ''h'', JObj example_tool_result, JStr ''i'',
      JObj [(''type'', JStr ''text''), (''text'', JStr '' there '')]]"

text \<open>Records whose message content is a plain string.\<close>

definition example_plain :: "string \<Rightarrow> dict" where
  "example_plain record_type =
     [(''type'', JStr record_type), (''message'', JObj [(''content'', JStr '' hi '')])]"

text \<open>
  Tool uses, some with something missing: a \<^verbatim>\<open>Read\<close> with no input at all, a \<^verbatim>\<open>Grep\<close> with
  a pattern and a path, a \<^verbatim>\<open>Grep\<close> with an empty input, an MCP call, a tool of no known
  name with none of the probed keys, and one with a \<^verbatim>\<open>url\<close>.
\<close>

definition example_read :: dict where
  "example_read = [(''type'', JStr ''tool_use''), (''id'', JStr ''t5''), (''name'', JStr ''Read'')]"

definition example_grep :: dict where
  "example_grep =
     [(''type'', JStr ''tool_use''), (''id'', JStr ''t2''), (''name'', JStr ''Grep''),
      (''input'', JObj [(''pattern'', JStr ''TODO''), (''path'', JStr ''src'')])]"

definition example_grep_bare :: dict where
  "example_grep_bare =
     [(''type'', JStr ''tool_use''), (''id'', JStr ''t7''), (''name'', JStr ''Grep''),
      (''input'', JObj [])]"

definition example_mcp :: dict where
  "example_mcp =
     [(''type'', JStr ''tool_use''), (''id'', JStr ''t6''), (''name'', JStr ''mcp__db__query''),
      (''input'', JObj [(''sql'', JStr ''select 1''), (''limit'', JInt 7)])]"

definition example_other :: dict where
  "example_other =
     [(''type'', JStr ''tool_use''), (''id'', JStr ''t3''), (''name'', JStr ''WebSearch''),
      (''input'', JObj [(''q'', JStr ''isabelle'')])]"

definition example_fetch :: dict where
  "example_fetch =
     [(''type'', JStr ''tool_use''), (''id'', JStr ''t8''), (''name'', JStr ''WebFetch''),
      (''input'', JObj [(''prompt'', JStr ''summarise''), (''url'', JStr ''http://example.org'')])]"

text \<open>
  Failed tool results whose payload starts with a block whose text is not a str: null, and
  a list.
\<close>

definition example_null_text :: dict where
  "example_null_text =
     [(''type'', JStr ''tool_result''), (''tool_use_id'', JStr ''t1''), (''is_error'', JBool True),
      (''content'', JArr [JObj [(''type'', JStr ''text''), (''text'', JNull)]])]"

definition example_list_text :: dict where
  "example_list_text =
     [(''type'', JStr ''tool_result''), (''tool_use_id'', JStr ''t1''), (''is_error'', JBool True),
      (''content'', JArr [JObj [(''type'', JStr ''text''), (''text'', JArr [JStr ''boom''])]])]"

section \<open>Evaluating the model\<close>

lemmas model_defs =
  dict_get_def attr_get_def truthy_def py_slice_def py_len_def py_add_str_def py_iter_def
  py_str_def py_strip_def isspace_def attr_strip_def py_contains_def py_index_def dict_items_def
  dict_of_pairs_def startswith_def bash_cmd_def todo_item_def todo_items_def mcp_params_def
  probe_keys_def set_from_input_def grep_fields_def simplify_tool_use_def hash_key_def
  registry_set_def error_text_def process_tool_result_def assistant_item_def
  process_assistant_message_def user_text_part_def extract_user_text_def user_item_def
  process_user_message_def count_input_def count_dropped_def message_content_def
  streamline_line_def initial_pass_def streamline_def

lemmas example_defs = example_tool_use_def example_tool_result_def example_loads_def
  example_repr_def example_input_def example_long_bash_def example_user_items_def
  example_plain_def example_read_def example_grep_def example_mcp_def example_other_def
  example_grep_bare_def example_fetch_def example_null_text_def example_list_text_def

lemma example_run:
  "streamline example_loads example_dumps example_repr example_input =
     Inr (\<lparr>input_lines = 5, input_bytes = 33, output_lines = 4, output_bytes = 31,
            dropped_records = 2\<rparr>,
          [''assistant'' @ [CHR 0x0A], ''tool_use'' @ [CHR 0x0A], ''user'' @ [CHR 0x0A],
           ''result'' @ [CHR 0x0A]])"
  by (simp add: model_defs example_defs Let_def)

section \<open>The output loop\<close>


lemma write_outputs_tool_uses: "p_tool_uses (write_outputs dumps outs p) = p_tool_uses p"
  by (induction outs arbitrary: p) (simp_all add: Let_def)

lemma write_outputs_dropped:
  "dropped_records (p_stats (write_outputs dumps outs p)) = dropped_records (p_stats p)"
  by (induction outs arbitrary: p) (simp_all add: Let_def)

lemma pass_inv_write: "pass_inv p \<Longrightarrow> pass_inv (write_outputs dumps outs p)"
  by (induction outs arbitrary: p) (simp_all add: Let_def pass_inv_def)

lemma pass_inv_count_input: "pass_inv (count_input line p) = pass_inv p"
  by (simp add: pass_inv_def count_input_def)

lemma pass_inv_count_dropped: "pass_inv (count_dropped p) = pass_inv p"
  by (simp add: pass_inv_def count_dropped_def)

lemma pass_inv_tool_uses: "pass_inv (p\<lparr>p_tool_uses := tu\<rparr>) = pass_inv p"
  by (simp add: pass_inv_def)

lemma pass_inv_line:
  "streamline_line loads dumps repr line p = Inr p' \<Longrightarrow> pass_inv p \<Longrightarrow> pass_inv p'"
  by (auto simp: streamline_line_def Let_def pass_inv_write pass_inv_count_input
        pass_inv_count_dropped pass_inv_tool_uses
      split: sum.splits if_splits prod.splits)

lemma pass_inv_loop:
  "streamline_loop loads dumps repr lines p = Inr p' \<Longrightarrow> pass_inv p \<Longrightarrow> pass_inv p'"
proof (induction lines arbitrary: p)
  case Nil
  then show ?case by simp
next
  case (Cons line rest)
  then show ?case by (auto split: sum.splits dest: pass_inv_line)
qed

lemma pass_inv_zero:
  assumes "pass_inv p"
  shows "(output_bytes (p_stats p) = 0) = (p_written p = [])"
proof -
  have pos: "((\<Sum>w\<leftarrow>ws. int (length w)) = 0) = (ws = [])" if "[] \<notin> set ws"
    for ws :: "string list"
    using that
  proof (induction ws)
    case Nil
    then show ?case by simp
  next
    case (Cons w ws)
    have "0 \<le> (\<Sum>w\<leftarrow>ws. int (length w))"
      by (rule sum_list_nonneg) auto
    moreover have "0 < int (length w)"
      using Cons.prems by auto
    ultimately have "int (length w) + (\<Sum>w\<leftarrow>ws. int (length w)) \<noteq> 0"
      by linarith
    then show ?case by simp
  qed
  from assms show ?thesis by (simp add: pass_inv_def pos)
qed

section \<open>Lines that are not JSON\<close>

text \<open>
  C4. A line on which \<^verbatim>\<open>json.loads\<close> raises \<^verbatim>\<open>JSONDecodeError\<close> only counts as input: the
  line and byte counters of the input go up by one and by the length of the line, nothing
  is written, the registry, the output counters and the dropped-record counter stay as
  they were, and the loop goes on with the next line.
\<close>

theorem invalid_json_line_skipped:
  assumes "loads line = Inl JSONDecodeError"
  shows "streamline_line loads dumps repr line p = Inr (count_input line p)
     \<and> p_written (count_input line p) = p_written p
     \<and> p_tool_uses (count_input line p) = p_tool_uses p
     \<and> dropped_records (p_stats (count_input line p)) = dropped_records (p_stats p)
     \<and> output_lines (p_stats (count_input line p)) = output_lines (p_stats p)
     \<and> output_bytes (p_stats (count_input line p)) = output_bytes (p_stats p)
     \<and> input_lines (p_stats (count_input line p)) = input_lines (p_stats p) + 1
     \<and> input_bytes (p_stats (count_input line p)) = input_bytes (p_stats p) + int (length line)
     \<and> streamline_loop loads dumps repr (line # rest) p
         = streamline_loop loads dumps repr rest (count_input line p)"
  using assms by (simp add: streamline_line_def count_input_def)

theorem invalid_json_line_skipped_witness:
  "example_loads ''{nope'' = Inl JSONDecodeError
   \<and> streamline_line example_loads example_dumps example_repr ''{nope'' initial_pass =
       Inr \<lparr>p_stats = \<lparr>input_lines = 1, input_bytes = 5, output_lines = 0, output_bytes = 0,
                        dropped_records = 0\<rparr>,
            p_tool_uses = [], p_written = []\<rparr>"
proof -
  have h: "example_loads ''{nope'' = Inl JSONDecodeError"
    by (simp add: example_loads_def)
  show ?thesis
    using h invalid_json_line_skipped
      [of example_loads "''{nope''" example_dumps example_repr initial_pass "[]"]
    by (simp add: count_input_def initial_pass_def)
qed

section \<open>Drop accounting\<close>

lemma line_dropped:
  "streamline_line loads dumps repr line p = Inr p' \<Longrightarrow>
     dropped_records (p_stats p') =
       dropped_records (p_stats p) + (if counted_as_dropped loads line then 1 else 0)
     \<and> (\<forall>v. loads line = Inr v \<longrightarrow> (\<exists>record. v = JObj record))"
  by (auto simp: streamline_line_def Let_def counted_as_dropped_def write_outputs_dropped
         count_input_def count_dropped_def attr_get_def
      split: sum.splits if_splits prod.splits json.splits)

lemma loop_dropped:
  "streamline_loop loads dumps repr lines p = Inr p' \<Longrightarrow>
     dropped_records (p_stats p') =
       dropped_records (p_stats p) + int (length (filter (counted_as_dropped loads) lines))
     \<and> (\<forall>line\<in>set lines. \<forall>v. loads line = Inr v \<longrightarrow> (\<exists>record. v = JObj record))"
proof (induction lines arbitrary: p)
  case Nil
  then show ?case by simp
next
  case (Cons line rest)
  from Cons.prems obtain p1 where
    l: "streamline_line loads dumps repr line p = Inr p1"
    and r: "streamline_loop loads dumps repr rest p1 = Inr p'"
    by (auto split: sum.splits)
  from line_dropped[OF l] Cons.IH[OF r] show ?case by auto
qed

text \<open>
  C5. When the pass ends and returns its stats, \<^verbatim>\<open>dropped_records\<close> is the number of
  input lines that parsed as JSON and whose type is not \<^verbatim>\<open>assistant\<close> or \<^verbatim>\<open>user\<close>;
  lines that failed to parse are not counted. (Every line that parsed was then a JSON
  object: on any other JSON value the pass ends with an exception and returns no stats.)
\<close>

theorem dropped_records_count:
  assumes "streamline loads dumps repr input_file = Inr (st, out)"
  shows "dropped_records st = int (length (filter (counted_as_dropped loads) input_file))
     \<and> (\<forall>line\<in>set input_file. \<forall>v. loads line = Inr v \<longrightarrow> (\<exists>record. v = JObj record))"
  using assms loop_dropped[of loads dumps repr input_file initial_pass]
  by (auto simp: streamline_def initial_pass_def split: sum.splits)

theorem dropped_records_count_witness:
  "streamline example_loads example_dumps example_repr example_input =
     Inr (\<lparr>input_lines = 5, input_bytes = 33, output_lines = 4, output_bytes = 31,
            dropped_records = 2\<rparr>,
          [''assistant'' @ [CHR 0x0A], ''tool_use'' @ [CHR 0x0A], ''user'' @ [CHR 0x0A],
           ''result'' @ [CHR 0x0A]])
   \<and> filter (counted_as_dropped example_loads) example_input = [''snapshot'', ''summary'']
   \<and> \<not> counted_as_dropped example_loads ''{nope''"
proof -
  have cnt: "filter (counted_as_dropped example_loads) example_input = [''snapshot'', ''summary'']"
    by (simp add: counted_as_dropped_def example_defs dict_get_def)
  have no: "\<not> counted_as_dropped example_loads ''{nope''"
    by (simp add: counted_as_dropped_def example_defs)
  show ?thesis
    using dropped_records_count [OF example_run] example_run cnt no by simp
qed

section \<open>The reduction ratio\<close>

text \<open>
  C10. Computing the reduction ratio never divides by zero: it is 0 when the output byte
  counter is 0 and the quotient of the input bytes by the output bytes otherwise. In the
  stats a pass returns, the output byte counter is 0 exactly when nothing was written.
\<close>

theorem reduction_never_divides_by_zero:
  "reduction st = Inr (if output_bytes st = 0 then 0
                        else of_int (input_bytes st) / of_int (output_bytes st))
   \<and> (streamline loads dumps repr input_file = Inr (st', out) \<longrightarrow>
        (output_bytes st' = 0) = (out = []))"
proof -
  have "pass_inv initial_pass"
    by (simp add: pass_inv_def initial_pass_def)
  then have "(output_bytes (p_stats p) = 0) = (p_written p = [])"
    if "streamline_loop loads dumps repr input_file initial_pass = Inr p" for p
    using that pass_inv_loop pass_inv_zero by blast
  then show ?thesis
    by (auto simp: reduction_def py_truediv_def streamline_def split: sum.splits)
qed

theorem reduction_never_divides_by_zero_witness:
  "streamline example_loads example_dumps example_repr [''snapshot'', ''{nope''] =
     Inr (\<lparr>input_lines = 2, input_bytes = 13, output_lines = 0, output_bytes = 0,
            dropped_records = 1\<rparr>, [])
   \<and> reduction \<lparr>input_lines = 2, input_bytes = 13, output_lines = 0, output_bytes = 0,
                 dropped_records = 1\<rparr> = Inr 0"
proof -
  have h: "streamline example_loads example_dumps example_repr [''snapshot'', ''{nope''] =
     Inr (\<lparr>input_lines = 2, input_bytes = 13, output_lines = 0, output_bytes = 0,
            dropped_records = 1\<rparr>, [])"
    by (simp add: model_defs example_defs Let_def)
  show ?thesis
    using h reduction_never_divides_by_zero
      [of "\<lparr>input_lines = 2, input_bytes = 13, output_lines = 0, output_bytes = 0,
            dropped_records = 1\<rparr>" example_loads example_dumps example_repr
          "[''snapshot'', ''{nope'']"]
    by simp
qed

section \<open>The Bash command\<close>

text \<open>
  C6. For a \<^verbatim>\<open>Bash\<close> tool use whose command is a string, the simplified record is the tool
  name, the invocation id and \<^verbatim>\<open>cmd\<close>: the command itself when it has at most 200
  characters, and otherwise its first 200 characters followed by three dots, 203 characters
  in all. The emitted \<^verbatim>\<open>tool_use\<close> output record carries the same \<^verbatim>\<open>cmd\<close>.
\<close>

theorem bash_cmd_truncated:
  assumes "dict_get tool_use ''name'' (JStr ''unknown'') = JStr ''Bash''"
      and "dict_get tool_use ''input'' (JObj []) = JObj inp"
      and "dict_get inp ''command'' (JStr '''') = JStr command"
  shows "simplify_tool_use repr tool_use =
           Inr [(''tool'', JStr ''Bash''), (''id'', dict_get tool_use ''id'' (JStr '''')),
                (''cmd'', JStr (if length command \<le> 200 then command
                                else take 200 command @ ''...''))]
       \<and> (200 < length command \<longrightarrow> length (take 200 command @ ''...'') = 203)
       \<and> (dict_get tool_use ''type'' JNull = JStr ''tool_use'' \<longrightarrow>
            hash_key (dict_get tool_use ''id'' (JStr '''')) = Inr k \<longrightarrow>
            map_sum id fst (assistant_item repr (JObj tool_use) tool_uses) =
              Inr [JObj [(''type'', JStr ''tool_use''), (''tool'', JStr ''Bash''),
                         (''id'', dict_get tool_use ''id'' (JStr '''')),
                         (''cmd'', JStr (if length command \<le> 200 then command
                                         else take 200 command @ ''...''))]])"
proof -
  have s: "simplify_tool_use repr tool_use =
           Inr [(''tool'', JStr ''Bash''), (''id'', dict_get tool_use ''id'' (JStr '''')),
                (''cmd'', JStr (if length command \<le> 200 then command
                                else take 200 command @ ''...''))]"
    using assms
    by (simp add: simplify_tool_use_def attr_get_def bash_cmd_def py_len_def py_slice_def
          py_add_str_def)
  show ?thesis
    by (simp add: s assistant_item_def registry_set_def dict_of_pairs_def)
qed

theorem bash_cmd_truncated_witness:
  "dict_get example_long_bash ''name'' (JStr ''unknown'') = JStr ''Bash''
   \<and> dict_get example_long_bash ''input'' (JObj [])
        = JObj [(''command'', JStr (replicate 250 (CHR ''a'')))]
   \<and> simplify_tool_use example_repr example_long_bash =
        Inr [(''tool'', JStr ''Bash''), (''id'', JStr ''t1''),
             (''cmd'', JStr (replicate 200 (CHR ''a'') @ ''...''))]
   \<and> length (replicate 200 (CHR ''a'') @ ''...'') = 203
   \<and> map_sum id fst (assistant_item example_repr (JObj example_long_bash) []) =
        Inr [JObj [(''type'', JStr ''tool_use''), (''tool'', JStr ''Bash''), (''id'', JStr ''t1''),
                   (''cmd'', JStr (replicate 200 (CHR ''a'') @ ''...''))]]"
  using bash_cmd_truncated [of example_long_bash
       "[(''command'', JStr (replicate 250 (CHR ''a'')))]" "replicate 250 (CHR ''a'')"
       example_repr "KStr ''t1''" "[]"]
  by (simp add: dict_get_def hash_key_def example_long_bash_def)

section \<open>Content that is a plain string\<close>

lemma collect_text_append: "collect_text items acc = acc @ concat (map user_text_part items)"
  by (induction items arbitrary: acc) simp_all

lemma py_join_chars: "py_join (map (\<lambda>c. JStr [c]) s) = Inr s"
  by (induction s) simp_all

lemma user_text_part_chars:
  "concat (map (user_text_part \<circ> (\<lambda>c. JStr [c])) s) = map (\<lambda>c. JStr [c]) s"
  by (induction s) (simp_all add: user_text_part_def)

lemma user_loop_chars: "user_loop (map (\<lambda>c. JStr [c]) s) outs tu = Inr outs"
  by (induction s arbitrary: outs) (simp_all add: user_item_def)

lemma assistant_loop_chars:
  "assistant_loop repr (map (\<lambda>c. JStr [c]) s) outs tu = Inr (outs, tu)"
  by (induction s arbitrary: outs) (simp_all add: assistant_item_def)

lemma user_plain:
  "process_user_message (JStr s) tool_uses =
     Inr (if py_strip s = [] then []
          else [JObj [(''type'', JStr ''user''), (''text'', JStr (py_strip s))]])"
  by (simp add: process_user_message_def extract_user_text_def py_iter_def collect_text_append
        user_text_part_chars py_join_chars user_loop_chars Let_def)

lemma assistant_plain: "process_assistant_message repr (JStr s) tool_uses = Inr ([], tool_uses)"
  by (simp add: process_assistant_message_def py_iter_def assistant_loop_chars)

text \<open>
  C9. When the message content is a plain string \<open>s\<close>: the user processor returns one
  \<^verbatim>\<open>user\<close> record whose text is \<open>s\<close> stripped, or nothing when that is empty, and no
  \<^verbatim>\<open>result\<close> record; the assistant processor returns nothing and leaves the registry as
  it was. So a \<^verbatim>\<open>user\<close> line with such content writes that one record (or none), and an
  \<^verbatim>\<open>assistant\<close> line with such content only counts as input.
\<close>

theorem plain_string_content:
  "process_user_message (JStr s) tool_uses =
       Inr (if py_strip s = [] then []
            else [JObj [(''type'', JStr ''user''), (''text'', JStr (py_strip s))]])
   \<and> process_assistant_message repr (JStr s) tool_uses = Inr ([], tool_uses)
   \<and> (loads line = Inr (JObj record) \<longrightarrow>
        dict_get record ''message'' (JObj []) = JObj message \<longrightarrow>
        dict_get message ''content'' (JArr []) = JStr s \<longrightarrow>
          (dict_get record ''type'' JNull = JStr ''user'' \<longrightarrow>
             streamline_line loads dumps repr line p =
               Inr (write_outputs dumps
                     (if py_strip s = [] then []
                      else [JObj [(''type'', JStr ''user''), (''text'', JStr (py_strip s))]])
                     (count_input line p)))
        \<and> (dict_get record ''type'' JNull = JStr ''assistant'' \<longrightarrow>
             streamline_line loads dumps repr line p = Inr (count_input line p)))"
  by (simp add: user_plain assistant_plain streamline_line_def message_content_def attr_get_def
        Let_def)

theorem plain_string_content_witness:
  "py_strip '' hi '' = ''hi''
   \<and> streamline_line (\<lambda>l. Inr (JObj (example_plain ''user''))) example_dumps example_repr
        ''u'' initial_pass =
       Inr \<lparr>p_stats = \<lparr>input_lines = 1, input_bytes = 1, output_lines = 1, output_bytes = 5,
                        dropped_records = 0\<rparr>,
            p_tool_uses = [], p_written = [''user'' @ [CHR 0x0A]]\<rparr>
   \<and> streamline_line (\<lambda>l. Inr (JObj (example_plain ''assistant''))) example_dumps example_repr
        ''a'' initial_pass =
       Inr \<lparr>p_stats = \<lparr>input_lines = 1, input_bytes = 1, output_lines = 0, output_bytes = 0,
                        dropped_records = 0\<rparr>,
            p_tool_uses = [], p_written = []\<rparr>"
proof -
  have strip: "py_strip '' hi '' = ''hi''"
    by (simp add: py_strip_def isspace_def)
  show ?thesis
    using strip
      plain_string_content [of "'' hi ''" "[]" example_repr "\<lambda>l. Inr (JObj (example_plain ''user''))"
        "''u''" "example_plain ''user''" "[(''content'', JStr '' hi '')]" example_dumps
        initial_pass]
      plain_string_content [of "'' hi ''" "[]" example_repr
        "\<lambda>l. Inr (JObj (example_plain ''assistant''))"
        "''a''" "example_plain ''assistant''" "[(''content'', JStr '' hi '')]" example_dumps
        initial_pass]
    by (simp add: example_plain_def dict_get_def count_input_def initial_pass_def)
qed

section \<open>The Tool Result Reducer\<close>

lemma process_tool_result_spec:
  "error_text_ok block \<Longrightarrow> process_tool_result block tool_uses = Inr (spec_result block)"
  by (auto simp: error_text_ok_def process_tool_result_def spec_result_def error_text_def
        spec_error_text_def py_slice_def Let_def
      split: json.splits list.splits)

lemma result_record_pairs:
  "dict_of_pairs [(''type'', t)] (spec_result block) = (''type'', t) # spec_result block"
  by (simp add: dict_of_pairs_def spec_result_def Let_def split: option.splits)

lemma user_item_spec:
  "result_ok item \<Longrightarrow>
     user_item item tool_uses = Inr (if is_tool_result item then [result_record item] else [])"
  by (cases item)
     (simp_all add: user_item_def result_ok_def is_tool_result_def result_record_def
        process_tool_result_spec result_record_pairs)

text \<open>
  C2, as the code has it. For a well-typed tool result block the reducer returns the record of the
  specification: the invocation id, \<^verbatim>\<open>ok\<close> as the negation of the error flag and, when
  the flag is set, the error text (a string payload cut at 200; for a sequence the text of
  its first element or that element itself, cut at 200), which is left out when there is
  none. The user processor emits it as a \<^verbatim>\<open>result\<close> output record.
\<close>

theorem tool_result_reduced:
  assumes "error_text_ok block"
  shows "process_tool_result block tool_uses = Inr (spec_result block)
     \<and> (dict_get block ''type'' JNull = JStr ''tool_result'' \<longrightarrow>
          user_item (JObj block) tool_uses =
            Inr [JObj ((''type'', JStr ''result'') # spec_result block)])"
  using assms
  by (simp add: process_tool_result_spec user_item_def result_record_pairs)

theorem tool_result_reduced_witness:
  "error_text_ok example_tool_result
   \<and> process_tool_result example_tool_result [] =
       Inr [(''id'', JStr ''t1''), (''ok'', JBool False), (''error'', JStr ''boom'')]
   \<and> user_item (JObj example_tool_result) [] =
       Inr [JObj [(''type'', JStr ''result''), (''id'', JStr ''t1''), (''ok'', JBool False),
                  (''error'', JStr ''boom'')]]"
proof -
  have h: "error_text_ok example_tool_result"
    by (simp add: error_text_ok_def example_tool_result_def dict_get_def)
  show ?thesis
    using h tool_result_reduced [OF h, of "[]"]
    by (simp add: spec_result_def spec_error_text_def example_tool_result_def dict_get_def
          truthy_def)
qed

text \<open>
  Not every tool result block is reduced that way. When the payload starts with a
  structured block whose text is not a str, no error text is cut from it: on a null text
  slicing raises and no record is emitted, and a list text is emitted as a list.
\<close>

theorem tool_result_text_not_str_counterexample:
  "process_tool_result example_null_text [] = Inl TypeError
   \<and> user_item (JObj example_null_text) [] = Inl TypeError
   \<and> process_tool_result example_list_text [] =
       Inr [(''id'', JStr ''t1''), (''ok'', JBool False), (''error'', JArr [JStr ''boom''])]"
  by (simp add: model_defs example_null_text_def example_list_text_def)

section \<open>The User Content Processor\<close>

lemma user_loop_spec:
  "\<forall>item\<in>set items. result_ok item \<Longrightarrow>
     user_loop items outs tool_uses = Inr (outs @ map result_record (filter is_tool_result items))"
  by (induction items arbitrary: outs) (simp_all add: user_item_spec)

lemma py_join_append:
  "py_join (xs @ ys) =
     (case py_join xs of
        Inl e \<Rightarrow> Inl e
      | Inr s \<Rightarrow> (case py_join ys of Inl e \<Rightarrow> Inl e | Inr t \<Rightarrow> Inr (s @ t)))"
  by (induction xs) (simp_all split: json.splits sum.splits)

lemma py_join_part:
  "text_is_str item \<Longrightarrow>
     py_join (user_text_part item) = Inr (if is_text_block item then block_text item else [])"
  by (cases item)
     (auto simp: user_text_part_def is_text_block_def block_text_def text_is_str_def
        split: json.splits)

lemma py_join_parts:
  "\<forall>item\<in>set items. text_is_str item \<Longrightarrow>
     py_join (concat (map user_text_part items)) =
       Inr (concat (map block_text (filter is_text_block items)))"
  by (induction items) (simp_all add: py_join_append py_join_part)

lemma extract_user_text_spec:
  assumes "py_iter content = Inr items" and "\<forall>item\<in>set items. text_is_str item"
  shows "extract_user_text content =
           Inr (if collapsed_text items = [] then None else Some (collapsed_text items))"
  using assms
  by (simp add: extract_user_text_def collect_text_append py_join_parts collapsed_text_def Let_def)

text \<open>
  C3. For user content that is a sequence of well-typed blocks, the processor returns: at
  most one \<^verbatim>\<open>user\<close> record, present when the collapsed text (the texts of the bare strings
  and \<^verbatim>\<open>text\<close> blocks, concatenated in block order with no separator and trimmed) is not
  empty and carrying that text; and after it the \<^verbatim>\<open>result\<close> records of the
  \<^verbatim>\<open>tool_result\<close> blocks in their order, wherever those blocks stand among the text.
\<close>

theorem user_text_first:
  assumes "py_iter content = Inr items"
      and "\<forall>item\<in>set items. text_is_str item"
      and "\<forall>item\<in>set items. result_ok item"
  shows "process_user_message content tool_uses =
           Inr ((if collapsed_text items = [] then []
                 else [JObj [(''type'', JStr ''user''), (''text'', JStr (collapsed_text items))]])
                @ map result_record (filter is_tool_result items))"
  using assms
  by (simp add: process_user_message_def extract_user_text_spec user_loop_spec)

theorem user_text_first_witness:
  "py_iter (JArr example_user_items) = Inr example_user_items
   \<and> list_all text_is_str example_user_items
   \<and> list_all result_ok example_user_items
   \<and> process_user_message (JArr example_user_items) [] =
       Inr [JObj [(''type'', JStr ''user''), (''text'', JStr ''hi there'')],
            JObj [(''type'', JStr ''result''), (''id'', JStr ''t1''), (''ok'', JBool False),
                  (''error'', JStr ''boom'')]]"
proof -
  have h1: "py_iter (JArr example_user_items) = Inr example_user_items"
    by (simp add: py_iter_def)
  have h2: "\<forall>item\<in>set example_user_items. text_is_str item"
    by (simp add: example_user_items_def text_is_str_def dict_get_def example_tool_result_def)
  have h3: "\<forall>item\<in>set example_user_items. result_ok item"
    by (simp add: example_user_items_def result_ok_def is_tool_result_def error_text_ok_def
          dict_get_def example_tool_result_def)
  have collapsed: "collapsed_text example_user_items = ''hi there''"
    by (simp add: collapsed_text_def example_user_items_def is_text_block_def block_text_def
          dict_get_def example_tool_result_def py_strip_def isspace_def)
  have res: "map result_record (filter is_tool_result example_user_items) =
       [JObj [(''type'', JStr ''result''), (''id'', JStr ''t1''), (''ok'', JBool False),
              (''error'', JStr ''boom'')]]"
    by (simp add: example_user_items_def is_tool_result_def result_record_def spec_result_def
          spec_error_text_def dict_get_def example_tool_result_def truthy_def)
  show ?thesis
    using h1 h2 h3 user_text_first [OF h1 h2 h3, of "[]"]
    by (simp add: collapsed res list_all_iff)
qed

section \<open>The registry is never read\<close>

lemma assistant_item_registry:
  "map_sum id fst (assistant_item repr item tu1) = map_sum id fst (assistant_item repr item tu2)"
  by (simp add: assistant_item_def registry_set_def Let_def split: json.splits sum.splits)

lemma assistant_loop_registry:
  "map_sum id fst (assistant_loop repr items outs tu1) =
   map_sum id fst (assistant_loop repr items outs tu2)"
proof (induction items arbitrary: outs tu1 tu2)
  case Nil
  then show ?case by simp
next
  case (Cons item items)
  show ?case
  proof (cases "assistant_item repr item tu1")
    case (Inl e)
    with assistant_item_registry[of repr item tu1 tu2]
    have "assistant_item repr item tu2 = Inl e"
      by (cases "assistant_item repr item tu2") simp_all
    with Inl show ?thesis by simp
  next
    case (Inr r)
    obtain new tu1' where r: "r = (new, tu1')" by (cases r)
    with Inr assistant_item_registry[of repr item tu1 tu2]
    obtain tu2' where "assistant_item repr item tu2 = Inr (new, tu2')"
      by (cases "assistant_item repr item tu2") auto
    with Inr r Cons.IH[of "outs @ new" tu1' tu2'] show ?thesis by simp
  qed
qed

lemma assistant_registry:
  "map_sum id fst (process_assistant_message repr content tu1) =
   map_sum id fst (process_assistant_message repr content tu2)"
  by (simp add: process_assistant_message_def assistant_loop_registry split: sum.splits)

lemma user_registry: "process_user_message content tu1 = process_user_message content tu2"
proof -
  have item: "user_item item tu1 = user_item item tu2" for item
    by (simp add: user_item_def process_tool_result_def split: json.splits)
  have loop: "user_loop items outs tu1 = user_loop items outs tu2" for items outs
    by (induction items arbitrary: outs) (simp_all add: item split: sum.splits)
  show ?thesis
    by (simp add: process_user_message_def loop Let_def split: sum.splits)
qed

lemma write_outputs_visible:
  "same_visible p q \<Longrightarrow> same_visible (write_outputs dumps outs p) (write_outputs dumps outs q)"
  by (induction outs arbitrary: p q) (simp_all add: same_visible_def Let_def)

lemma line_visible:
  assumes "same_visible p q"
  shows "rel_sum (=) same_visible (streamline_line loads dumps repr line p)
           (streamline_line loads dumps repr line q)"
proof -
  have ci: "same_visible (count_input line p) (count_input line q)"
    using assms by (simp add: same_visible_def count_input_def)
  have cd: "same_visible (count_dropped (count_input line p)) (count_dropped (count_input line q))"
    using assms by (simp add: same_visible_def count_input_def count_dropped_def)
  have us: "process_user_message content (p_tool_uses (count_input line p)) =
            process_user_message content (p_tool_uses (count_input line q))" for content
    by (rule user_registry)
  have as: "rel_sum (=) same_visible
      (case process_assistant_message repr content (p_tool_uses (count_input line p)) of
         Inl e \<Rightarrow> Inl e
       | Inr (outputs, tool_uses') \<Rightarrow>
           Inr (write_outputs dumps outputs ((count_input line p)\<lparr>p_tool_uses := tool_uses'\<rparr>)))
      (case process_assistant_message repr content (p_tool_uses (count_input line q)) of
         Inl e \<Rightarrow> Inl e
       | Inr (outputs, tool_uses') \<Rightarrow>
           Inr (write_outputs dumps outputs ((count_input line q)\<lparr>p_tool_uses := tool_uses'\<rparr>)))"
    for content
  proof -
    have eq: "map_sum id fst
                (process_assistant_message repr content (p_tool_uses (count_input line p)))
        = map_sum id fst
                (process_assistant_message repr content (p_tool_uses (count_input line q)))"
      by (rule assistant_registry)
    have upd: "same_visible ((count_input line p)\<lparr>p_tool_uses := a\<rparr>)
                 ((count_input line q)\<lparr>p_tool_uses := b\<rparr>)" for a b
      using ci by (simp add: same_visible_def)
    show ?thesis
      using eq
      by (cases "process_assistant_message repr content (p_tool_uses (count_input line p))";
          cases "process_assistant_message repr content (p_tool_uses (count_input line q))")
         (auto intro!: write_outputs_visible upd)
  qed
  show ?thesis
    unfolding streamline_line_def Let_def
    using ci cd as
    by (auto simp: us split: sum.splits intro!: write_outputs_visible)
qed

lemma loop_visible:
  "same_visible p q \<Longrightarrow>
     rel_sum (=) same_visible (streamline_loop loads dumps repr lines p)
       (streamline_loop loads dumps repr lines q)"
proof (induction lines arbitrary: p q)
  case Nil
  then show ?case by simp
next
  case (Cons line rest)
  have step: "rel_sum (=) same_visible (streamline_line loads dumps repr line p)
           (streamline_line loads dumps repr line q)"
    by (rule line_visible[OF Cons.prems])
  show ?case
  proof (cases "streamline_line loads dumps repr line p")
    case (Inl e)
    with step have "streamline_line loads dumps repr line q = Inl e"
      by (cases "streamline_line loads dumps repr line q") simp_all
    with Inl Cons.prems show ?thesis by (simp add: same_visible_def)
  next
    case (Inr p')
    with step obtain q' where q: "streamline_line loads dumps repr line q = Inr q'"
      and v: "same_visible p' q'"
      by (cases "streamline_line loads dumps repr line q") simp_all
    from Inr q Cons.IH[OF v] show ?thesis by simp
  qed
qed

text \<open>
  C8. Nothing that is emitted or counted depends on the contents of the registry. From any
  two registries: the tool result reducer and the user processor return the same; the
  assistant processor returns the same output records, or raises the same exception; and
  the loop over the same input lines ends with the same counters and the same output
  file, or with the same exception and the same output file.
\<close>

theorem registry_noninterference:
  "process_tool_result block tu1 = process_tool_result block tu2
   \<and> process_user_message content tu1 = process_user_message content tu2
   \<and> map_sum id fst (process_assistant_message repr content tu1) =
       map_sum id fst (process_assistant_message repr content tu2)
   \<and> map_sum id (\<lambda>p. (p_stats p, p_written p))
         (streamline_loop loads dumps repr lines (p\<lparr>p_tool_uses := tu1\<rparr>)) =
       map_sum id (\<lambda>p. (p_stats p, p_written p))
         (streamline_loop loads dumps repr lines (p\<lparr>p_tool_uses := tu2\<rparr>))"
proof -
  have "same_visible (p\<lparr>p_tool_uses := tu1\<rparr>) (p\<lparr>p_tool_uses := tu2\<rparr>)"
    by (simp add: same_visible_def)
  from loop_visible[OF this, of loads dumps repr lines]
  have "rel_sum (=) same_visible
          (streamline_loop loads dumps repr lines (p\<lparr>p_tool_uses := tu1\<rparr>))
          (streamline_loop loads dumps repr lines (p\<lparr>p_tool_uses := tu2\<rparr>))" .
  then have "map_sum id (\<lambda>p. (p_stats p, p_written p))
         (streamline_loop loads dumps repr lines (p\<lparr>p_tool_uses := tu1\<rparr>)) =
       map_sum id (\<lambda>p. (p_stats p, p_written p))
         (streamline_loop loads dumps repr lines (p\<lparr>p_tool_uses := tu2\<rparr>))"
    by (cases "streamline_loop loads dumps repr lines (p\<lparr>p_tool_uses := tu1\<rparr>)";
        cases "streamline_loop loads dumps repr lines (p\<lparr>p_tool_uses := tu2\<rparr>)")
       (simp_all add: same_visible_def)
  then show ?thesis
    by (simp add: user_registry assistant_registry process_tool_result_def)
qed

section \<open>Truncation bounds\<close>






























section \<open>Fields of a simplified tool use\<close>






end
